theory Spec2Isabelle
  imports Complex_Main "HOL-Library.AList"
begin

section \<open>Python values\<close>

text \<open>
  The values that \<open>response.json()\<close> can produce and that the code passes around as
  tokens and payloads. A dict is an association list looked up with \<open>map_of\<close>; the
  keys of a Python dict are distinct. Floats are the finite ones, as rationals.
\<close>

datatype pyval =
    PNone
  | PBool bool
  | PInt int
  | PFloat rat
  | PStr string
  | PList "pyval list"
  | PDict "(string \<times> pyval) list"

text \<open>Python truthiness, as tested by \<open>if token:\<close> and \<open>if not access_token:\<close>.\<close>

fun truthy :: "pyval \<Rightarrow> bool" where
  "truthy PNone = False"
| "truthy (PBool b) = b"
| "truthy (PInt i) = (i \<noteq> 0)"
| "truthy (PFloat q) = (q \<noteq> 0)"
| "truthy (PStr s) = (s \<noteq> [])"
| "truthy (PList xs) = (xs \<noteq> [])"
| "truthy (PDict kvs) = (kvs \<noteq> [])"

fun py_type_name :: "pyval \<Rightarrow> string" where
  "py_type_name PNone = ''NoneType''"
| "py_type_name (PBool b) = ''bool''"
| "py_type_name (PInt i) = ''int''"
| "py_type_name (PFloat q) = ''float''"
| "py_type_name (PStr s) = ''str''"
| "py_type_name (PList xs) = ''list''"
| "py_type_name (PDict kvs) = ''dict''"

text \<open>
  \<open>token_data.get(key)\<close>: on a dict the value or \<open>None\<close>; on any other value an
  AttributeError, returned as its message.
\<close>

fun py_get :: "pyval \<Rightarrow> string \<Rightarrow> string + pyval" where
  "py_get (PDict kvs) k = Inr (case map_of kvs k of None \<Rightarrow> PNone | Some v \<Rightarrow> v)"
| "py_get v k = Inl ([CHR 0x27] @ py_type_name v @ [CHR 0x27] @ '' object has no attribute ''
                      @ [CHR 0x27] @ ''get'' @ [CHR 0x27])"

text \<open>
  \<open>str.strip()\<close> without arguments removes leading and trailing whitespace. In the
  range of \<open>char\<close> the whitespace code points of Python are 9 to 13, 28 to 32, 133 and 160.
\<close>

definition is_space :: "char \<Rightarrow> bool" where
  "is_space c = (of_char c \<in> {9, 10, 11, 12, 13, 28, 29, 30, 31, 32, 133, 160 :: nat})"

definition strip :: "string \<Rightarrow> string" where
  "strip s = rev (dropWhile is_space (rev (dropWhile is_space s)))"

text \<open>\<open>str(n)\<close> for an integer, used when the status code is formatted into a message.\<close>

fun digits :: "nat \<Rightarrow> string" where
  "digits n = (if n < 10 then [char_of (48 + n)] else digits (n div 10) @ [char_of (48 + n mod 10)])"

declare digits.simps [simp del]

text \<open>The value of a decimal digit, to read \<open>digits\<close> back.\<close>

definition digit_value :: "char \<Rightarrow> nat" where
  "digit_value c = of_char c - 48"

definition str_int :: "int \<Rightarrow> string" where
  "str_int i = (if i < 0 then ''-'' @ digits (nat (- i)) else digits (nat i))"

section \<open>HTTP and the cache\<close>

text \<open>
  A \<open>requests.Response\<close>: the status code, the body text and the headers. The headers
  of \<open>requests\<close> are looked up case-insensitively; the map is keyed by the lower-cased name.
\<close>

record response =
  status_code :: int
  resp_text :: string
  resp_headers :: "string \<rightharpoonup> string"

text \<open>\<open>response.ok\<close> is false exactly for the statuses 400 to 599.\<close>

definition ok :: "response \<Rightarrow> bool" where
  "ok r = (\<not> (400 \<le> status_code r \<and> status_code r < 600))"

text \<open>One entry of \<open>settings.KRA_APPS\<close>.\<close>

record app_config =
  token_url :: string
  consumer_key :: string
  consumer_secret :: string

text \<open>The arguments of the \<open>requests.get\<close> call of \<open>fetch_kra_token\<close>.\<close>

record get_request =
  get_url :: string
  get_params :: "(string \<times> string) list"
  get_auth :: "string \<times> string"
  get_verify :: bool

text \<open>
  A header value is a literal or \<open>f'Bearer {token}'\<close>; the latter is kept as the token
  it was formatted from.
\<close>

datatype header_value = Literal string | Bearer pyval

text \<open>The arguments of the \<open>requests.post\<close> call of \<open>call_kra_endpoint\<close>.\<close>

record post_request =
  post_url :: string
  post_json :: pyval
  post_headers :: "(string \<times> header_value) list"
  post_verify :: bool
  post_timeout :: int

text \<open>
  What a call of \<open>requests\<close> can do: raise \<open>requests.Timeout\<close>, raise another
  \<open>RequestException\<close> (with its message) or return a response.
\<close>

datatype get_outcome = GetRaises string | GetResponse response

datatype post_outcome = PostTimeout | PostRaises string | PostResponse response

text \<open>
  Everything the two functions consume from outside this repository: the settings table,
  the upstream (the reply to the n-th GET and to the n-th POST, with the seconds the call
  took) and the JSON decoder behind \<open>response.json()\<close> (\<open>Inl\<close> is the message of the
  decoding error it raises).
\<close>

record environment =
  KRA_APPS :: "string \<rightharpoonup> app_config"
  requests_get :: "nat \<Rightarrow> get_request \<Rightarrow> nat \<times> get_outcome"
  requests_post :: "nat \<Rightarrow> post_request \<Rightarrow> nat \<times> post_outcome"
  json_loads :: "string \<Rightarrow> string + pyval"

text \<open>
  The state the code changes: the Django cache (value and expiry time per key), the
  clock in seconds, and the requests sent so far, oldest first.
\<close>

record world =
  cache :: "string \<rightharpoonup> (pyval \<times> nat)"
  clock :: nat
  gets_sent :: "get_request list"
  posts_sent :: "post_request list"

text \<open>\<open>cache.get(key)\<close>: the stored value while it has not expired, else \<open>None\<close>.\<close>

definition cache_get :: "string \<Rightarrow> world \<Rightarrow> pyval" where
  "cache_get key w =
     (case cache w key of
        None \<Rightarrow> PNone
      | Some (v, expires_at) \<Rightarrow> if clock w < expires_at then v else PNone)"

text \<open>\<open>cache.set(key, value, timeout=t)\<close>.\<close>

definition cache_set :: "string \<Rightarrow> pyval \<Rightarrow> nat \<Rightarrow> world \<Rightarrow> world" where
  "cache_set key v t w = w\<lparr>cache := (cache w)(key \<mapsto> (v, clock w + t))\<rparr>"

definition http_get :: "environment \<Rightarrow> get_request \<Rightarrow> world \<Rightarrow> get_outcome \<times> world" where
  "http_get env req w =
     (case requests_get env (length (gets_sent w)) req of
        (dt, out) \<Rightarrow> (out, w\<lparr>clock := clock w + dt, gets_sent := gets_sent w @ [req]\<rparr>))"

definition http_post :: "environment \<Rightarrow> post_request \<Rightarrow> world \<Rightarrow> post_outcome \<times> world" where
  "http_post env req w =
     (case requests_post env (length (posts_sent w)) req of
        (dt, out) \<Rightarrow> (out, w\<lparr>clock := clock w + dt, posts_sent := posts_sent w @ [req]\<rparr>))"

section \<open>Exceptions\<close>

text \<open>
  The code raises plain \<open>Exception(message)\<close>; \<open>requests\<close> raises a
  \<open>RequestException\<close>; reading the unbound local \<open>response\<close> raises
  \<open>UnboundLocalError\<close>.
\<close>

datatype exn = Exception string | RequestException string | UnboundLocalError

section \<open>fetch_kra_token\<close>

definition token_request :: "app_config \<Rightarrow> get_request" where
  "token_request app_config =
     \<lparr>get_url = token_url app_config,
      get_params = [(''grant_type'', ''client_credentials'')],
      get_auth = (consumer_key app_config, consumer_secret app_config),
      get_verify = False\<rparr>"

text \<open>
  Lines 39 to 53: decode the body, read \<open>access_token\<close>, fall back to the stripped text
  when it is falsy. Any exception of the block is re-raised with its message. The
  \<open>print\<close> calls of both functions write to standard output only and are left out; the
  cache operations do not raise.
\<close>

definition extract_token :: "environment \<Rightarrow> response \<Rightarrow> string + pyval" where
  "extract_token env response =
     (case json_loads env (resp_text response) of
        Inl msg \<Rightarrow> Inl msg
      | Inr token_data \<Rightarrow>
          (case py_get token_data ''access_token'' of
             Inl msg \<Rightarrow> Inl msg
           | Inr access_token \<Rightarrow>
               Inr (if \<not> truthy access_token then PStr (strip (resp_text response))
                    else access_token)))"

definition cache_key :: "string \<Rightarrow> string" where
  "cache_key app_name = ''kra_token_'' @ app_name"

definition fetch_kra_token ::
  "environment \<Rightarrow> string \<Rightarrow> bool \<Rightarrow> world \<Rightarrow> (exn + pyval) \<times> world" where
  "fetch_kra_token env app_name force_refresh w =
     (if \<not> force_refresh \<and> truthy (cache_get (cache_key app_name) w)
      then (Inr (cache_get (cache_key app_name) w), w)
      else
        (case KRA_APPS env app_name of
           None \<Rightarrow> (Inl (Exception (''Invalid app selection: '' @ app_name)), w)
         | Some app_config \<Rightarrow>
             (case http_get env (token_request app_config) w of
                (GetRaises msg, w1) \<Rightarrow> (Inl (Exception (''Token request failed: '' @ msg)), w1)
              | (GetResponse response, w1) \<Rightarrow>
                  if \<not> ok response
                  then (Inl (Exception (''Token request failed: '' @ resp_text response)), w1)
                  else
                    (case extract_token env response of
                       Inl msg \<Rightarrow> (Inl (Exception (''Failed to get access token: '' @ msg)), w1)
                     | Inr access_token \<Rightarrow>
                         (Inr access_token,
                          cache_set (cache_key app_name) access_token 3600 w1)))))"

section \<open>call_kra_endpoint\<close>

text \<open>The local variables of \<open>call_kra_endpoint\<close>; \<open>response\<close> is unbound until a POST returns.\<close>

record locals =
  retries :: int
  response :: "response option"
  token :: pyval
  headers :: "(string \<times> header_value) list"

definition initial_headers :: "pyval \<Rightarrow> (string \<times> header_value) list" where
  "initial_headers tok =
     [(''Content-Type'', Literal ''application/json''),
      (''Authorization'', Bearer tok),
      (''Accept'', Literal ''application/json'')]"

definition kra_request :: "string \<Rightarrow> pyval \<Rightarrow> int \<Rightarrow> locals \<Rightarrow> post_request" where
  "kra_request url payload timeout l =
     \<lparr>post_url = url, post_json = payload, post_headers = headers l,
      post_verify = False, post_timeout = timeout\<rparr>"

text \<open>
  The \<open>while retries < max_retries\<close> loop, lines 79 to 113. It returns the locals when
  the loop is left by \<open>break\<close> or by its condition, the exception when one is raised, and
  \<open>None\<close> when it runs forever.
\<close>

partial_function (option) kra_loop ::
  "environment \<Rightarrow> string \<Rightarrow> pyval \<Rightarrow> string \<Rightarrow> int \<Rightarrow> int \<Rightarrow> locals \<Rightarrow> world
     \<Rightarrow> ((exn + locals) \<times> world) option" where
  "kra_loop env url payload app_name max_retries timeout l w =
     (if retries l < max_retries then
        (case http_post env (kra_request url payload timeout l) w of
           (PostResponse r, w1) \<Rightarrow>
             (let l1 = l\<lparr>response := Some r\<rparr> in
              if status_code r = 401 then
                (case fetch_kra_token env app_name True w1 of
                   (Inl e, w2) \<Rightarrow> Some (Inl e, w2)
                 | (Inr tok, w2) \<Rightarrow>
                     kra_loop env url payload app_name max_retries timeout
                       (l1\<lparr>token := tok,
                           headers := AList.update ''Authorization'' (Bearer tok) (headers l1)\<rparr>) w2)
              else if status_code r = 504 then
                (let l2 = l1\<lparr>retries := retries l1 + 1\<rparr> in
                 if retries l2 < max_retries
                 then kra_loop env url payload app_name max_retries timeout l2 w1
                 else Some (Inr l2, w1))
              else Some (Inr l1, w1))
         | (PostTimeout, w1) \<Rightarrow>
             (let l1 = l\<lparr>retries := retries l + 1\<rparr> in
              if retries l1 \<ge> max_retries
              then Some (Inl (Exception ''Maximum retries reached, request timed out''), w1)
              else kra_loop env url payload app_name max_retries timeout l1 w1)
         | (PostRaises msg, w1) \<Rightarrow> Some (Inl (RequestException msg), w1))
      else Some (Inr l, w))"

text \<open>The message built in lines 116 to 121.\<close>

definition error_details :: "response \<Rightarrow> string" where
  "error_details r =
     [CHR 0x0A] @ ''        {'' @ [CHR 0x0A] @ ''          '' @ [CHR 0x22] @ ''errorResponse''
       @ [CHR 0x22] @ '': {'' @ [CHR 0x0A]
     @ ''            '' @ [CHR 0x22] @ ''requestId'' @ [CHR 0x22] @ '': '' @ [CHR 0x22]
       @ (case resp_headers r ''x-request-id'' of None \<Rightarrow> ''unknown'' | Some v \<Rightarrow> v)
       @ [CHR 0x22] @ '','' @ [CHR 0x0A]
     @ ''            '' @ [CHR 0x22] @ ''code'' @ [CHR 0x22] @ '': '' @ [CHR 0x22]
       @ str_int (status_code r) @ [CHR 0x22] @ '','' @ [CHR 0x0A]
     @ ''            '' @ [CHR 0x22] @ ''message'' @ [CHR 0x22] @ '': '' @ [CHR 0x22]
       @ resp_text r @ [CHR 0x22] @ '','' @ [CHR 0x0A]
     @ ''            '' @ [CHR 0x22] @ ''timestamp'' @ [CHR 0x22] @ '': '' @ [CHR 0x22]
       @ (case resp_headers r ''date'' of None \<Rightarrow> ''unknown'' | Some v \<Rightarrow> v)
       @ [CHR 0x22] @ [CHR 0x0A]
     @ ''          }'' @ [CHR 0x0A] @ ''        }''"

text \<open>
  Lines 115 to 124, after the loop. A body that does not decode makes \<open>response.json()\<close>
  raise the \<open>JSONDecodeError\<close> of \<open>requests\<close>, which is a \<open>RequestException\<close>.
\<close>

definition kra_result :: "environment \<Rightarrow> locals \<Rightarrow> exn + pyval" where
  "kra_result env l =
     (case response l of
        None \<Rightarrow> Inl UnboundLocalError
      | Some r \<Rightarrow>
          if \<not> ok r then Inl (Exception (error_details r))
          else (case json_loads env (resp_text r) of
                  Inl msg \<Rightarrow> Inl (RequestException msg)
                | Inr v \<Rightarrow> Inr v))"

text \<open>The handler of line 126: a \<open>RequestException\<close> is re-raised as \<open>Request failed\<close>.\<close>

fun request_failed :: "exn \<Rightarrow> exn" where
  "request_failed (RequestException msg) = Exception (''Request failed: '' @ msg)"
| "request_failed e = e"

definition call_kra_endpoint ::
  "environment \<Rightarrow> string \<Rightarrow> pyval \<Rightarrow> string \<Rightarrow> int \<Rightarrow> int \<Rightarrow> world
     \<Rightarrow> ((exn + pyval) \<times> world) option" where
  "call_kra_endpoint env url payload app_name max_retries timeout w =
     (case fetch_kra_token env app_name False w of
        (Inl e, w1) \<Rightarrow> Some (Inl e, w1)
      | (Inr tok, w1) \<Rightarrow>
          (case kra_loop env url payload app_name max_retries timeout
                  \<lparr>retries = 0, response = None, token = tok, headers = initial_headers tok\<rparr> w1 of
             None \<Rightarrow> None
           | Some (Inl e, w2) \<Rightarrow> Some (Inl (request_failed e), w2)
           | Some (Inr l, w2) \<Rightarrow> Some (map_sum request_failed id (kra_result env l), w2)))"

section \<open>The token view\<close>

text \<open>
  \<open>TokenRequestSerializer\<close>: the field \<open>app\<close> is a choice of \<open>app1\<close> and \<open>app2\<close> with
  default \<open>app1\<close>. The argument is the value under \<open>app\<close> in the request data, if any;
  \<open>Inl\<close> is the rejected value.
\<close>

fun TokenRequestSerializer :: "pyval option \<Rightarrow> pyval + string" where
  "TokenRequestSerializer None = Inr ''app1''"
| "TokenRequestSerializer (Some (PStr s)) =
     (if s = ''app1'' \<or> s = ''app2'' then Inr s else Inl (PStr s))"
| "TokenRequestSerializer (Some v) = Inl v"

datatype view_body = AccessToken pyval | Error string | SerializerErrors pyval

record view_response =
  status :: int
  data :: view_body

text \<open>\<open>str(e)\<close>; the message of \<open>UnboundLocalError\<close> is that of Python 3.11 and later.\<close>

fun str_exn :: "exn \<Rightarrow> string" where
  "str_exn (Exception msg) = msg"
| "str_exn (RequestException msg) = msg"
| "str_exn UnboundLocalError =
     ''cannot access local variable '' @ [CHR 0x27] @ ''response'' @ [CHR 0x27]
       @ '' where it is not associated with a value''"

definition GetTokenView_post :: "environment \<Rightarrow> pyval option \<Rightarrow> world \<Rightarrow> view_response \<times> world" where
  "GetTokenView_post env request_app w =
     (case TokenRequestSerializer request_app of
        Inl errors \<Rightarrow> (\<lparr>status = 400, data = SerializerErrors errors\<rparr>, w)
      | Inr app \<Rightarrow>
          (case fetch_kra_token env app True w of
             (Inr tok, w1) \<Rightarrow> (\<lparr>status = 200, data = AccessToken tok\<rparr>, w1)
           | (Inl e, w1) \<Rightarrow> (\<lparr>status = 500, data = Error (str_exn e)\<rparr>, w1)))"

section \<open>Notation for the statements\<close>

text \<open>The locals at the start of the loop, and the POST sent while the token is \<open>tok\<close>.\<close>

definition initial_locals :: "pyval \<Rightarrow> locals" where
  "initial_locals tok = \<lparr>retries = 0, response = None, token = tok, headers = initial_headers tok\<rparr>"

definition bearer_post :: "string \<Rightarrow> pyval \<Rightarrow> int \<Rightarrow> pyval \<Rightarrow> post_request" where
  "bearer_post url payload timeout tok =
     \<lparr>post_url = url, post_json = payload, post_headers = initial_headers tok,
      post_verify = False, post_timeout = timeout\<rparr>"

section \<open>A concrete upstream\<close>

text \<open>
  One configured app, a decoder that agrees with \<open>json.loads\<close> on the bodies used below
  and rejects the others, and an upstream given by the outcome of its n-th GET and POST,
  each call taking one second.
\<close>

definition app1_config :: app_config where
  "app1_config = \<lparr>token_url = ''https://sbx.example/token'', consumer_key = ''key1'',
                      consumer_secret = ''secret1''\<rparr>"

definition kra_apps :: "string \<rightharpoonup> app_config" where
  "kra_apps = [''app1'' \<mapsto> app1_config]"

definition kra_loads :: \<open>string \<Rightarrow> string + pyval\<close> where
  \<open>kra_loads s =
     (if s = ''{"access_token":"T1"}'' then Inr (PDict [(''access_token'', PStr ''T1'')])
      else if s = ''{"access_token":"T2"}'' then Inr (PDict [(''access_token'', PStr ''T2'')])
      else if s = ''{"ok":true}'' then Inr (PDict [(''ok'', PBool True)])
      else Inl ''Expecting value: line 1 column 1 (char 0)'')\<close>

definition kra_env :: "(nat \<Rightarrow> get_outcome) \<Rightarrow> (nat \<Rightarrow> post_outcome) \<Rightarrow> environment" where
  "kra_env g p = \<lparr>KRA_APPS = kra_apps, requests_get = (\<lambda>n req. (1, g n)),
      requests_post = (\<lambda>n req. (1, p n)), json_loads = kra_loads\<rparr>"

definition reply :: "int \<Rightarrow> string \<Rightarrow> response" where
  "reply c s = \<lparr>status_code = c, resp_text = s, resp_headers = Map.empty\<rparr>"

definition token_T1 :: \<open>nat \<Rightarrow> get_outcome\<close> where
  \<open>token_T1 n = GetResponse (reply 200 ''{"access_token":"T1"}'')\<close>

definition token_T2 :: \<open>nat \<Rightarrow> get_outcome\<close> where
  \<open>token_T2 n = GetResponse (reply 200 ''{"access_token":"T2"}'')\<close>

definition always_401 :: "nat \<Rightarrow> post_outcome" where
  "always_401 n = PostResponse (reply 401 ''Unauthorized'')"

definition token_T1_then_T2 :: "nat \<Rightarrow> get_outcome" where
  "token_T1_then_T2 n = (if n = 0 then token_T1 n else token_T2 n)"

definition unauthorized_then_ok :: \<open>nat \<Rightarrow> post_outcome\<close> where
  \<open>unauthorized_then_ok n =
     (if n = 0 then PostResponse (reply 401 ''Unauthorized'')
      else PostResponse (reply 200 ''{"ok":true}''))\<close>

definition gateway_timeouts_then_ok :: \<open>nat \<Rightarrow> post_outcome\<close> where
  \<open>gateway_timeouts_then_ok n =
     (if n < 3 then PostResponse (reply 504 ''Gateway Timeout'')
      else PostResponse (reply 200 ''{"ok":true}''))\<close>

definition forbidden :: response where
  "forbidden = \<lparr>status_code = 403, resp_text = ''Forbidden'',
                resp_headers = [''x-request-id'' \<mapsto> ''req-42'']\<rparr>"

definition pin_url :: string where
  "pin_url = ''https://sbx.example/pin''"

definition pin_payload :: pyval where
  "pin_payload = PDict [(''KRAPIN'', PStr ''A000000000Z'')]"

definition empty_world :: world where
  "empty_world = \<lparr>cache = Map.empty, clock = 0, gets_sent = [], posts_sent = []\<rparr>"

text \<open>The world after the first token fetch, and after a 401 and the refresh it triggers.\<close>

definition world_T1 :: world where
  "world_T1 = \<lparr>cache = [cache_key ''app1'' \<mapsto> (PStr ''T1'', 3601)], clock = 1,
               gets_sent = [token_request app1_config], posts_sent = []\<rparr>"

definition world_T2 :: world where
  "world_T2 = \<lparr>cache = [cache_key ''app1'' \<mapsto> (PStr ''T2'', 3603)], clock = 3,
               gets_sent = [token_request app1_config, token_request app1_config],
               posts_sent = [bearer_post pin_url pin_payload 60 (PStr ''T1'')]\<rparr>"

lemmas kra_defs = kra_env_def kra_apps_def app1_config_def kra_loads_def
  token_T1_def token_T2_def reply_def empty_world_def pin_url_def pin_payload_def world_T1_def
  world_T2_def always_401_def forbidden_def
  token_T1_then_T2_def unauthorized_then_ok_def gateway_timeouts_then_ok_def

lemmas fetch_defs = fetch_kra_token_def http_get_def cache_get_def cache_set_def extract_token_def
  ok_def token_request_def

section \<open>Facts about the helpers\<close>

lemma digit_value_char_of: "d < 10 \<Longrightarrow> digit_value (char_of (48 + d)) = d"
  by (simp add: digit_value_def)

text \<open>\<open>digits\<close> writes the number it is given: reading the digits back returns it.\<close>

lemma digits_value: "foldl (\<lambda>a c. 10 * a + digit_value c) 0 (digits n) = n"
proof (induction n rule: digits.induct)
  case (1 n)
  show ?case
  proof (cases "n < 10")
    case True
    then show ?thesis by (subst digits.simps) (simp add: digit_value_char_of)
  next
    case False
    with 1 show ?thesis
      by (subst digits.simps) (simp add: digit_value_char_of)
  qed
qed

section \<open>Facts about fetch_kra_token\<close>

lemma fetch_network:
  assumes "force_refresh \<or> \<not> truthy (cache_get (cache_key app_name) w)"
      and "KRA_APPS env app_name = Some app_config"
      and "requests_get env (length (gets_sent w)) (token_request app_config) = (dt, GetResponse r)"
      and "ok r"
  shows "fetch_kra_token env app_name force_refresh w =
     (let w1 = w\<lparr>clock := clock w + dt, gets_sent := gets_sent w @ [token_request app_config]\<rparr> in
      case extract_token env r of
        Inl msg \<Rightarrow> (Inl (Exception (''Failed to get access token: '' @ msg)), w1)
      | Inr tok \<Rightarrow> (Inr tok, cache_set (cache_key app_name) tok 3600 w1))"
  using assms by (auto simp: fetch_kra_token_def http_get_def Let_def split: sum.splits)

lemma fetch_forced:
  assumes "KRA_APPS env app_name = Some app_config"
  shows "\<exists>dt out. requests_get env (length (gets_sent w)) (token_request app_config) = (dt, out)
          \<and> fetch_kra_token env app_name True w =
            (let w1 = w\<lparr>clock := clock w + dt, gets_sent := gets_sent w @ [token_request app_config]\<rparr> in
             case out of
               GetRaises msg \<Rightarrow> (Inl (Exception (''Token request failed: '' @ msg)), w1)
             | GetResponse r \<Rightarrow>
                 if \<not> ok r then (Inl (Exception (''Token request failed: '' @ resp_text r)), w1)
                 else (case extract_token env r of
                         Inl msg \<Rightarrow> (Inl (Exception (''Failed to get access token: '' @ msg)), w1)
                       | Inr tok \<Rightarrow> (Inr tok, cache_set (cache_key app_name) tok 3600 w1)))"
proof -
  obtain dt out where "requests_get env (length (gets_sent w)) (token_request app_config) = (dt, out)"
    by (cases "requests_get env (length (gets_sent w)) (token_request app_config)")
  then show ?thesis using assms
    by (auto simp: fetch_kra_token_def http_get_def Let_def split: get_outcome.splits sum.splits)
qed

lemma fetch_forced_success:
  assumes "fetch_kra_token env app_name True w = (Inr tok, w')"
  shows "\<exists>app_config dt r. KRA_APPS env app_name = Some app_config
           \<and> requests_get env (length (gets_sent w)) (token_request app_config) = (dt, GetResponse r)
           \<and> ok r \<and> extract_token env r = Inr tok
           \<and> w' = cache_set (cache_key app_name) tok 3600
                    (w\<lparr>clock := clock w + dt, gets_sent := gets_sent w @ [token_request app_config]\<rparr>)"
  using assms
  by (auto simp: fetch_kra_token_def http_get_def
           split: option.splits prod.splits get_outcome.splits sum.splits if_splits)

lemma fetch_posts_sent:
  "fetch_kra_token env app_name force_refresh w = (res, w1) \<Longrightarrow> posts_sent w1 = posts_sent w"
  by (auto simp: fetch_kra_token_def http_get_def cache_set_def
           split: if_splits option.splits prod.splits get_outcome.splits sum.splits)

lemma kra_loads_blank: "\<forall>s. strip s = [] \<longrightarrow> isl (kra_loads s)"
  by (auto simp: kra_loads_def strip_def is_space_def)

lemma kra_env_fetch_T1:
  "fetch_kra_token (kra_env token_T1 p) ''app1'' force_refresh empty_world = (Inr (PStr ''T1''), world_T1)"
  by (simp add: fetch_defs kra_defs)

section \<open>Facts about the retry loop\<close>

lemma kra_request_retries [simp]:
  "kra_request url payload timeout (l\<lparr>retries := n\<rparr>) = kra_request url payload timeout l"
  by (simp add: kra_request_def)

lemma kra_request_response [simp]:
  "kra_request url payload timeout (l\<lparr>response := r\<rparr>) = kra_request url payload timeout l"
  by (simp add: kra_request_def)

lemma kra_request_initial [simp]:
  "kra_request url payload timeout (initial_locals tok) = bearer_post url payload timeout tok"
  by (simp add: kra_request_def bearer_post_def initial_locals_def)

lemma update_authorization [simp]:
  "AList.update ''Authorization'' (Bearer tok) (initial_headers tok0) = initial_headers tok"
  by (simp add: initial_headers_def)

lemma call_kra_endpoint_unfold:
  assumes "fetch_kra_token env app_name False w = (Inr tok, w1)"
  shows "call_kra_endpoint env url payload app_name max_retries timeout w =
    (case kra_loop env url payload app_name max_retries timeout (initial_locals tok) w1 of
       None \<Rightarrow> None
     | Some (Inl e, w2) \<Rightarrow> Some (Inl (request_failed e), w2)
     | Some (Inr l, w2) \<Rightarrow> Some (map_sum request_failed id (kra_result env l), w2))"
  using assms by (simp add: call_kra_endpoint_def initial_locals_def)

lemma loop_timeouts:
  assumes all: "\<forall>n req. snd (requests_post env n req) = PostTimeout"
  shows "retries l < max_retries \<Longrightarrow> nat (max_retries - retries l) = k \<Longrightarrow>
    \<exists>w'. kra_loop env url payload app_name max_retries timeout l w
            = Some (Inl (Exception ''Maximum retries reached, request timed out''), w')
        \<and> posts_sent w' = posts_sent w @ replicate k (kra_request url payload timeout l)
        \<and> gets_sent w' = gets_sent w \<and> cache w' = cache w"
proof (induction k arbitrary: l w)
  case 0
  then show ?case by simp
next
  case (Suc k)
  let ?req = "kra_request url payload timeout l"
  obtain dt where post: "requests_post env (length (posts_sent w)) ?req = (dt, PostTimeout)"
    using all by (metis prod.collapse)
  let ?w1 = "w\<lparr>clock := clock w + dt, posts_sent := posts_sent w @ [?req]\<rparr>"
  let ?l1 = "l\<lparr>retries := retries l + 1\<rparr>"
  have hp: "http_post env ?req w = (PostTimeout, ?w1)"
    by (simp add: http_post_def post)
  show ?case
  proof (cases "max_retries \<le> retries l + 1")
    case True
    with Suc.prems have "k = 0" by linarith
    with True Suc.prems hp show ?thesis
      by (subst kra_loop.simps) (simp add: Let_def)
  next
    case False
    then have lt: "retries ?l1 < max_retries" and k: "nat (max_retries - retries ?l1) = k"
      using Suc.prems by auto
    from Suc.IH[OF lt k, of ?w1] obtain w' where
      w': "kra_loop env url payload app_name max_retries timeout ?l1 ?w1
             = Some (Inl (Exception ''Maximum retries reached, request timed out''), w')"
          "posts_sent w' = posts_sent ?w1 @ replicate k (kra_request url payload timeout ?l1)"
          "gets_sent w' = gets_sent ?w1" "cache w' = cache ?w1"
      by blast
    have "kra_loop env url payload app_name max_retries timeout l w
            = kra_loop env url payload app_name max_retries timeout ?l1 ?w1"
      using False Suc.prems hp by (subst kra_loop.simps) (simp add: Let_def)
    with w' show ?thesis by (simp add: replicate_append_same)
  qed
qed

lemma loop_401_diverges:
  assumes posts: "\<forall>n req. \<exists>dt r. requests_post env n req = (dt, PostResponse r) \<and> status_code r = 401"
      and refresh: "\<forall>w. \<exists>tok w'. fetch_kra_token env app_name True w = (Inr tok, w')"
      and lt: "retries l < max_retries"
  shows "kra_loop env url payload app_name max_retries timeout l w = None"
proof (rule ccontr)
  assume "kra_loop env url payload app_name max_retries timeout l w \<noteq> None"
  then obtain y where y: "kra_loop env url payload app_name max_retries timeout l w = Some y"
    by blast
  have main: "e = env \<longrightarrow> a = app_name \<longrightarrow> retries l0 < m \<longrightarrow> False"
    if "kra_loop e u p a m t l0 w0 = Some y0" for e u p a m t l0 w0 y0
    using that
  proof (induction e u p a m t l0 w0 y0 rule: kra_loop.raw_induct[rotated, consumes 1])
    case (1 loop env' url' payload' app_name' max_retries' timeout' l' w' y')
    show ?case
    proof (intro impI)
      assume e: "env' = env" and a: "app_name' = app_name" and r: "retries l' < max_retries'"
      let ?req = "kra_request url' payload' timeout' l'"
      obtain dt rsp where post: "requests_post env (length (posts_sent w')) ?req = (dt, PostResponse rsp)"
        and st: "status_code rsp = 401"
        using posts by blast
      let ?w1 = "w'\<lparr>clock := clock w' + dt, posts_sent := posts_sent w' @ [?req]\<rparr>"
      have hp: "http_post env ?req w' = (PostResponse rsp, ?w1)"
        by (simp add: http_post_def post)
      obtain tok w2 where f: "fetch_kra_token env app_name True ?w1 = (Inr tok, w2)"
        using refresh by blast
      let ?l2 = "l'\<lparr>response := Some rsp, token := tok,
                     headers := AList.update ''Authorization'' (Bearer tok) (headers l')\<rparr>"
      have "loop env url' payload' app_name max_retries' timeout' ?l2 w2 = Some y'"
        using "1.hyps" e a r hp st f by (simp add: Let_def)
      from "1.IH"[OF this] r show False by simp
    qed
  qed
  from main[OF y] lt show False by simp
qed

lemma loop_exit:
  assumes "retries l < max_retries"
      and "requests_post env (length (posts_sent w)) (kra_request url payload timeout l) = (dt, PostResponse r)"
      and "status_code r \<noteq> 401" and "status_code r \<noteq> 504"
  shows "kra_loop env url payload app_name max_retries timeout l w =
           Some (Inr (l\<lparr>response := Some r\<rparr>),
                 w\<lparr>clock := clock w + dt,
                   posts_sent := posts_sent w @ [kra_request url payload timeout l]\<rparr>)"
  using assms by (subst kra_loop.simps) (simp add: http_post_def Let_def)

lemma loop_401_step:
  assumes "retries l < max_retries"
      and "requests_post env (length (posts_sent w)) (kra_request url payload timeout l) = (dt, PostResponse r)"
      and "status_code r = 401"
      and "fetch_kra_token env app_name True
             (w\<lparr>clock := clock w + dt,
                posts_sent := posts_sent w @ [kra_request url payload timeout l]\<rparr>) = (Inr tok, w2)"
  shows "kra_loop env url payload app_name max_retries timeout l w =
         kra_loop env url payload app_name max_retries timeout
           (l\<lparr>response := Some r, token := tok,
              headers := AList.update ''Authorization'' (Bearer tok) (headers l)\<rparr>) w2"
  using assms by (subst kra_loop.simps) (simp add: http_post_def Let_def)

lemma loop_504_step:
  assumes "retries l + 1 < max_retries"
      and "requests_post env (length (posts_sent w)) (kra_request url payload timeout l) = (dt, PostResponse r)"
      and "status_code r = 504"
  shows "kra_loop env url payload app_name max_retries timeout l w =
         kra_loop env url payload app_name max_retries timeout
           (l\<lparr>response := Some r, retries := retries l + 1\<rparr>)
           (w\<lparr>clock := clock w + dt,
              posts_sent := posts_sent w @ [kra_request url payload timeout l]\<rparr>)"
  using assms by (subst kra_loop.simps) (simp add: http_post_def Let_def)

lemma loop_504s:
  assumes "\<forall>i<k. \<exists>dt r. requests_post env (length (posts_sent w) + i)
                    (kra_request url payload timeout l) = (dt, PostResponse r) \<and> status_code r = 504"
      and "retries l + int k < max_retries"
  shows "\<exists>l' w'. kra_loop env url payload app_name max_retries timeout l w
                  = kra_loop env url payload app_name max_retries timeout l' w'
          \<and> retries l' = retries l + int k \<and> token l' = token l \<and> headers l' = headers l
          \<and> posts_sent w' = posts_sent w @ replicate k (kra_request url payload timeout l)
          \<and> gets_sent w' = gets_sent w \<and> cache w' = cache w"
  using assms
proof (induction k arbitrary: l w)
  case 0
  show ?case by (rule exI[of _ l], rule exI[of _ w]) simp
next
  case (Suc k)
  let ?req = "kra_request url payload timeout l"
  from Suc.prems(1) obtain dt r where
    post: "requests_post env (length (posts_sent w)) ?req = (dt, PostResponse r)"
    and st: "status_code r = 504"
    by (metis add.right_neutral zero_less_Suc)
  let ?l1 = "l\<lparr>response := Some r, retries := retries l + 1\<rparr>"
  let ?w1 = "w\<lparr>clock := clock w + dt, posts_sent := posts_sent w @ [?req]\<rparr>"
  have lt: "retries l + 1 < max_retries" using Suc.prems(2) by simp
  have step: "kra_loop env url payload app_name max_retries timeout l w
            = kra_loop env url payload app_name max_retries timeout ?l1 ?w1"
    by (rule loop_504_step[OF lt post st])
  have req: "kra_request url payload timeout ?l1 = ?req" by (simp add: kra_request_def)
  have rest: "\<forall>i<k. \<exists>dt r. requests_post env (length (posts_sent ?w1) + i)
                    (kra_request url payload timeout ?l1) = (dt, PostResponse r) \<and> status_code r = 504"
  proof (intro allI impI)
    fix i assume "i < k"
    then have "Suc i < Suc k" by simp
    with Suc.prems(1) have "\<exists>dt r. requests_post env (length (posts_sent w) + Suc i) ?req
                                = (dt, PostResponse r) \<and> status_code r = 504"
      by blast
    then show "\<exists>dt r. requests_post env (length (posts_sent ?w1) + i)
                    (kra_request url payload timeout ?l1) = (dt, PostResponse r) \<and> status_code r = 504"
      by (simp add: req)
  qed
  have lt': "retries ?l1 + int k < max_retries" using Suc.prems(2) by simp
  from Suc.IH[OF rest lt'] obtain l' w' where
    "kra_loop env url payload app_name max_retries timeout ?l1 ?w1
       = kra_loop env url payload app_name max_retries timeout l' w'"
    "retries l' = retries ?l1 + int k" "token l' = token ?l1" "headers l' = headers ?l1"
    "posts_sent w' = posts_sent ?w1 @ replicate k (kra_request url payload timeout ?l1)"
    "gets_sent w' = gets_sent ?w1" "cache w' = cache ?w1"
    by blast
  then show ?case
    using step by (intro exI[of _ l'] exI[of _ w']) (simp add: req replicate_append_same)
qed

lemma fetch_kra_token_undecodable:
  assumes "force_refresh \<or> \<not> truthy (cache_get (cache_key app_name) w)"
      and "KRA_APPS env app_name = Some app_config"
      and "requests_get env (length (gets_sent w)) (token_request app_config) = (dt, GetResponse r)"
      and "ok r"
      and "json_loads env (resp_text r) = Inl msg"
  shows "fetch_kra_token env app_name force_refresh w =
           (Inl (Exception (''Failed to get access token: '' @ msg)),
            w\<lparr>clock := clock w + dt, gets_sent := gets_sent w @ [token_request app_config]\<rparr>)"
  using fetch_network[OF assms(1-4)] assms(5) by (simp add: extract_token_def)

lemma fetch_kra_token_fallback:
  assumes "force_refresh \<or> \<not> truthy (cache_get (cache_key app_name) w)"
      and "KRA_APPS env app_name = Some app_config"
      and "requests_get env (length (gets_sent w)) (token_request app_config) = (dt, GetResponse r)"
      and "ok r"
      and "json_loads env (resp_text r) = Inr (PDict kvs)"
      and "map_of kvs ''access_token'' = None"
  shows "fetch_kra_token env app_name force_refresh w =
           (Inr (PStr (strip (resp_text r))),
            cache_set (cache_key app_name) (PStr (strip (resp_text r))) 3600
              (w\<lparr>clock := clock w + dt, gets_sent := gets_sent w @ [token_request app_config]\<rparr>))"
  using fetch_network[OF assms(1-4)] assms(5,6) by (simp add: extract_token_def)

section \<open>Properties\<close>

text \<open>
  C1. When the token endpoint answers with a success status and an empty (or blank) body,
  \<open>fetch_kra_token\<close> raises \<open>Failed to get access token\<close> and leaves the cache as it
  was: no empty token is returned or stored. The decoder is assumed to reject blank text,
  as \<open>json.loads\<close> does.
\<close>

theorem fetch_kra_token_blank_body_fails:
  assumes "\<forall>s. strip s = [] \<longrightarrow> isl (json_loads env s)"
      and "KRA_APPS env app_name = Some app_config"
      and "force_refresh \<or> \<not> truthy (cache_get (cache_key app_name) w)"
      and "requests_get env (length (gets_sent w)) (token_request app_config) = (dt, GetResponse r)"
      and "ok r"
      and "strip (resp_text r) = []"
  shows "\<exists>msg w'. fetch_kra_token env app_name force_refresh w
             = (Inl (Exception (''Failed to get access token: '' @ msg)), w')
           \<and> cache w' = cache w"
proof -
  from assms(1,6) obtain msg where "json_loads env (resp_text r) = Inl msg"
    by (metis sum.collapse(1))
  then have "extract_token env r = Inl msg" by (simp add: extract_token_def)
  then show ?thesis using fetch_network[OF assms(3,2,4,5)] by (simp add: Let_def)
qed

theorem fetch_kra_token_blank_body_fails_witness:
  "\<exists>msg w'. fetch_kra_token (kra_env (\<lambda>n. GetResponse (reply 200 [])) always_401) ''app1'' True
               empty_world
             = (Inl (Exception (''Failed to get access token: '' @ msg)), w')
           \<and> cache w' = cache empty_world"
proof -
  let ?env = "kra_env (\<lambda>n. GetResponse (reply 200 [])) always_401"
  have h1: "\<forall>s. strip s = [] \<longrightarrow> isl (json_loads ?env s)"
    using kra_loads_blank by (simp add: kra_env_def)
  have h2: "KRA_APPS ?env ''app1'' = Some app1_config"
    by (simp add: kra_env_def kra_apps_def)
  have h3: "True \<or> \<not> truthy (cache_get (cache_key ''app1'') empty_world)"
    by simp
  have h4: "requests_get ?env (length (gets_sent empty_world)) (token_request app1_config)
              = (1, GetResponse (reply 200 []))"
    by (simp add: kra_env_def)
  have h5: "ok (reply 200 [])" by (simp add: ok_def reply_def)
  have h6: "strip (resp_text (reply 200 [])) = []" by (simp add: strip_def reply_def)
  show ?thesis by (rule fetch_kra_token_blank_body_fails [OF h1 h2 h3 h4 h5 h6])
qed

text \<open>
  C2. The fallback to the stripped body is reached only after \<open>response.json()\<close> has
  succeeded. A bare token such as \<open>abc123\<close> is not JSON: the decoder raises, and
  \<open>fetch_kra_token\<close> fails with \<open>Failed to get access token\<close> instead of returning
  the body; nothing is cached.
\<close>

theorem fetch_kra_token_bare_token_fails:
  "fetch_kra_token (kra_env (\<lambda>n. GetResponse (reply 200 ''abc123'')) always_401) ''app1'' True
     empty_world
     = (Inl (Exception ''Failed to get access token: Expecting value: line 1 column 1 (char 0)''),
        \<lparr>cache = Map.empty, clock = 1, gets_sent = [token_request app1_config],
         posts_sent = []\<rparr>)"
  by (simp add: fetch_defs kra_defs)

text \<open>
  C3, as stated, fails. With \<open>max_retries = 1\<close> and a POST that times out, the request
  is sent once and never sent again: one POST in all, where one re-issue after the first
  request would make two.
\<close>

theorem call_kra_endpoint_timeouts_counterexample:
  "call_kra_endpoint (kra_env token_T1 (\<lambda>n. PostTimeout)) pin_url pin_payload ''app1'' 1 60 empty_world
     = Some (Inl (Exception ''Maximum retries reached, request timed out''),
             world_T1\<lparr>clock := 2, posts_sent := [bearer_post pin_url pin_payload 60 (PStr ''T1'')]\<rparr>)"
  by (simp add: call_kra_endpoint_unfold[OF kra_env_fetch_T1]
        kra_loop.simps[of _ _ _ _ _ _ "initial_locals (PStr ''T1'')"] http_post_def)
     (simp add: initial_locals_def kra_env_def world_T1_def)

text \<open>
  C3, amended. For every \<open>max_retries > 0\<close>, when the initial token is obtained and
  every POST times out, \<open>call_kra_endpoint\<close> sends the request exactly \<open>max_retries\<close>
  times in all (the first request and \<open>max_retries - 1\<close> re-issues) and then raises
  \<open>Maximum retries reached, request timed out\<close>.
\<close>

theorem call_kra_endpoint_timeouts:
  assumes "0 < max_retries"
      and "fetch_kra_token env app_name False w = (Inr tok, w1)"
      and "\<forall>n req. snd (requests_post env n req) = PostTimeout"
  shows "\<exists>w'. call_kra_endpoint env url payload app_name max_retries timeout w
            = Some (Inl (Exception ''Maximum retries reached, request timed out''), w')
        \<and> posts_sent w' = posts_sent w @ replicate (nat max_retries) (bearer_post url payload timeout tok)
        \<and> gets_sent w' = gets_sent w1 \<and> cache w' = cache w1"
proof -
  have lt: "retries (initial_locals tok) < max_retries"
    using assms(1) by (simp add: initial_locals_def)
  have k: "nat (max_retries - retries (initial_locals tok)) = nat max_retries"
    by (simp add: initial_locals_def)
  from loop_timeouts[OF assms(3) lt k, of url payload app_name timeout w1]
  obtain w' where
    "kra_loop env url payload app_name max_retries timeout (initial_locals tok) w1
       = Some (Inl (Exception ''Maximum retries reached, request timed out''), w')"
    "posts_sent w' = posts_sent w1 @ replicate (nat max_retries) (bearer_post url payload timeout tok)"
    "gets_sent w' = gets_sent w1" "cache w' = cache w1"
    by auto
  then show ?thesis
    using fetch_posts_sent[OF assms(2)] by (simp add: call_kra_endpoint_unfold[OF assms(2)])
qed

theorem call_kra_endpoint_timeouts_witness:
  "\<exists>w'. call_kra_endpoint (kra_env token_T1 (\<lambda>n. PostTimeout)) pin_url pin_payload ''app1'' 3 60 empty_world
            = Some (Inl (Exception ''Maximum retries reached, request timed out''), w')
        \<and> posts_sent w' = posts_sent empty_world
             @ replicate (nat 3) (bearer_post pin_url pin_payload 60 (PStr ''T1''))
        \<and> gets_sent w' = gets_sent world_T1 \<and> cache w' = cache world_T1"
proof -
  have h1: "(0::int) < 3" by simp
  have h3: "\<forall>n req. snd (requests_post (kra_env token_T1 (\<lambda>n. PostTimeout)) n req) = PostTimeout"
    by (simp add: kra_env_def)
  show ?thesis by (rule call_kra_endpoint_timeouts[OF h1 kra_env_fetch_T1 h3])
qed

text \<open>
  C4, as stated, fails. With \<open>max_retries = 0\<close> no POST is sent and the call ends at
  once, reading the unbound \<open>response\<close>; and with \<open>max_retries = 5\<close>, every POST
  answered 401 and a token endpoint that fails on the refresh, the call ends with the
  exception of the refresh.
\<close>

theorem call_kra_endpoint_401_counterexample:
  "map_option fst (call_kra_endpoint (kra_env token_T1 always_401) pin_url pin_payload ''app1'' 0 60
                     empty_world)
     = Some (Inl UnboundLocalError)
   \<and> map_option fst (call_kra_endpoint
                       (kra_env (\<lambda>n. if n = 0 then token_T1 n else GetRaises ''Connection refused'')
                          always_401)
                       pin_url pin_payload ''app1'' 5 60 empty_world)
     = Some (Inl (Exception ''Token request failed: Connection refused''))"
proof -
  have a: "map_option fst (call_kra_endpoint (kra_env token_T1 always_401) pin_url pin_payload ''app1'' 0 60
                     empty_world) = Some (Inl UnboundLocalError)"
    by (simp add: call_kra_endpoint_unfold[OF kra_env_fetch_T1]
          kra_loop.simps[of _ _ _ _ _ _ "initial_locals (PStr ''T1'')"])
       (simp add: initial_locals_def kra_result_def)
  let ?E = "kra_env (\<lambda>n. if n = 0 then token_T1 n else GetRaises ''Connection refused'') always_401"
  have f0: "fetch_kra_token ?E ''app1'' False empty_world = (Inr (PStr ''T1''), world_T1)"
    by (simp add: fetch_defs kra_defs)
  have b: "map_option fst (call_kra_endpoint ?E pin_url pin_payload ''app1'' 5 60 empty_world)
        = Some (Inl (Exception ''Token request failed: Connection refused''))"
    by (simp add: call_kra_endpoint_unfold[OF f0]
          kra_loop.simps[of _ _ _ _ _ _ "initial_locals (PStr ''T1'')"] http_post_def)
       (simp add: initial_locals_def fetch_defs kra_defs always_401_def)
  from a b show ?thesis by simp
qed

text \<open>
  C4, amended. For every \<open>max_retries > 0\<close>, when the initial token is obtained, every
  POST is answered 401 and every forced refresh succeeds, \<open>call_kra_endpoint\<close> never
  returns: the 401 branch leaves \<open>retries\<close> unchanged.
\<close>

theorem call_kra_endpoint_401_forever:
  assumes "0 < max_retries"
      and "fetch_kra_token env app_name False w = (Inr tok, w1)"
      and "\<forall>n req. \<exists>dt r. requests_post env n req = (dt, PostResponse r) \<and> status_code r = 401"
      and "\<forall>w2. \<exists>tok' w3. fetch_kra_token env app_name True w2 = (Inr tok', w3)"
  shows "call_kra_endpoint env url payload app_name max_retries timeout w = None"
proof -
  have lt: "retries (initial_locals tok) < max_retries"
    using assms(1) by (simp add: initial_locals_def)
  show ?thesis
    by (simp add: call_kra_endpoint_unfold[OF assms(2)] loop_401_diverges[OF assms(3,4) lt])
qed

theorem call_kra_endpoint_401_forever_witness:
  "call_kra_endpoint (kra_env token_T1 always_401) pin_url pin_payload ''app1'' 5 60 empty_world = None"
proof -
  have h1: "(0::int) < 5" by simp
  have h3: "\<forall>n req. \<exists>dt r. requests_post (kra_env token_T1 always_401) n req = (dt, PostResponse r)
                \<and> status_code r = 401"
    by (simp add: kra_env_def always_401_def reply_def)
  have h4: "\<forall>w2. \<exists>tok' w3. fetch_kra_token (kra_env token_T1 always_401) ''app1'' True w2 = (Inr tok', w3)"
    by (simp add: fetch_defs kra_defs)
  show ?thesis by (rule call_kra_endpoint_401_forever[OF h1 kra_env_fetch_T1 h3 h4])
qed

text \<open>
  C5. When the first POST is answered 401 and the POST after the refresh 200, the call
  refreshes the token once (one GET more), sends the second POST with the new token as
  bearer, leaves the loop with \<open>retries = 0\<close> and returns the decoded body of the 200
  response.
\<close>

theorem call_kra_endpoint_401_then_200:
  assumes "0 < max_retries"
      and "fetch_kra_token env app_name False w = (Inr t0, w1)"
      and "requests_post env (length (posts_sent w1)) (bearer_post url payload timeout t0)
             = (d1, PostResponse r1)"
      and "status_code r1 = 401"
      and "fetch_kra_token env app_name True
             (w1\<lparr>clock := clock w1 + d1,
                 posts_sent := posts_sent w1 @ [bearer_post url payload timeout t0]\<rparr>) = (Inr t1, w3)"
      and "requests_post env (length (posts_sent w3)) (bearer_post url payload timeout t1)
             = (d2, PostResponse r2)"
      and "status_code r2 = 200"
      and "json_loads env (resp_text r2) = Inr body"
  shows "\<exists>w4 app_config.
           call_kra_endpoint env url payload app_name max_retries timeout w = Some (Inr body, w4)
         \<and> kra_loop env url payload app_name max_retries timeout (initial_locals t0) w1
             = Some (Inr \<lparr>retries = 0, response = Some r2, token = t1,
                          headers = initial_headers t1\<rparr>, w4)
         \<and> posts_sent w4 = posts_sent w @ [bearer_post url payload timeout t0,
                                             bearer_post url payload timeout t1]
         \<and> KRA_APPS env app_name = Some app_config
         \<and> gets_sent w4 = gets_sent w1 @ [token_request app_config]
         \<and> cache w4 = (cache w1)(cache_key app_name \<mapsto> (t1, clock w3 + 3600))"
proof -
  let ?w2 = "w1\<lparr>clock := clock w1 + d1,
                 posts_sent := posts_sent w1 @ [bearer_post url payload timeout t0]\<rparr>"
  let ?w4 = "w3\<lparr>clock := clock w3 + d2,
                 posts_sent := posts_sent w3 @ [bearer_post url payload timeout t1]\<rparr>"
  let ?l1 = "(initial_locals t0)\<lparr>response := Some r1, token := t1,
               headers := AList.update ''Authorization'' (Bearer t1) (headers (initial_locals t0))\<rparr>"
  have lt: "retries (initial_locals t0) < max_retries"
    using assms(1) by (simp add: initial_locals_def)
  have req1: "kra_request url payload timeout ?l1 = bearer_post url payload timeout t1"
    by (simp add: kra_request_def bearer_post_def initial_locals_def)
  have step1: "kra_loop env url payload app_name max_retries timeout (initial_locals t0) w1
         = kra_loop env url payload app_name max_retries timeout ?l1 w3"
    using loop_401_step[OF lt, of env w1 url payload timeout d1 r1 app_name t1 w3] assms(3,4,5)
    by simp
  have lt1: "retries ?l1 < max_retries"
    using assms(1) by (simp add: initial_locals_def)
  have step2: "kra_loop env url payload app_name max_retries timeout ?l1 w3
         = Some (Inr (?l1\<lparr>response := Some r2\<rparr>), ?w4)"
    using loop_exit[OF lt1, of env w3 url payload timeout d2 r2 app_name] assms(6,7)
    by (simp add: req1)
  have l2: "?l1\<lparr>response := Some r2\<rparr>
          = \<lparr>retries = 0, response = Some r2, token = t1, headers = initial_headers t1\<rparr>"
    by (simp add: initial_locals_def)
  have res: "kra_result env \<lparr>retries = 0, response = Some r2, token = t1, headers = initial_headers t1\<rparr>
          = Inr body"
    using assms(7,8) by (simp add: kra_result_def ok_def)
  from fetch_forced_success[OF assms(5)] obtain app_config dt r where
    cfg: "KRA_APPS env app_name = Some app_config" and
    w3: "w3 = cache_set (cache_key app_name) t1 3600
                (?w2\<lparr>clock := clock ?w2 + dt, gets_sent := gets_sent ?w2 @ [token_request app_config]\<rparr>)"
    by blast
  have loop: "kra_loop env url payload app_name max_retries timeout (initial_locals t0) w1
         = Some (Inr \<lparr>retries = 0, response = Some r2, token = t1, headers = initial_headers t1\<rparr>, ?w4)"
    using step1 step2 l2 by simp
  have p: "posts_sent ?w4 = posts_sent w @ [bearer_post url payload timeout t0,
                                             bearer_post url payload timeout t1]"
    using fetch_posts_sent[OF assms(2)] fetch_posts_sent[OF assms(5)] by simp
  have g: "gets_sent ?w4 = gets_sent w1 @ [token_request app_config]"
    by (simp add: w3 cache_set_def)
  have c: "cache ?w4 = (cache w1)(cache_key app_name \<mapsto> (t1, clock w3 + 3600))"
    by (simp add: w3 cache_set_def)
  have call: "call_kra_endpoint env url payload app_name max_retries timeout w = Some (Inr body, ?w4)"
    by (simp add: call_kra_endpoint_unfold[OF assms(2)] loop res)
  show ?thesis using call loop p cfg g c by blast
qed

theorem call_kra_endpoint_401_then_200_witness:
  \<open>\<exists>w4 app_config.
     call_kra_endpoint (kra_env token_T1_then_T2 unauthorized_then_ok) pin_url pin_payload ''app1'' 5 60
         empty_world
       = Some (Inr (PDict [(''ok'', PBool True)]), w4)
   \<and> kra_loop (kra_env token_T1_then_T2 unauthorized_then_ok) pin_url pin_payload ''app1'' 5 60
         (initial_locals (PStr ''T1'')) world_T1
       = Some (Inr \<lparr>retries = 0, response = Some (reply 200 ''{"ok":true}''), token = PStr ''T2'',
                    headers = initial_headers (PStr ''T2'')\<rparr>, w4)
   \<and> posts_sent w4 = posts_sent empty_world
         @ [bearer_post pin_url pin_payload 60 (PStr ''T1''),
            bearer_post pin_url pin_payload 60 (PStr ''T2'')]
   \<and> KRA_APPS (kra_env token_T1_then_T2 unauthorized_then_ok) ''app1'' = Some app_config
   \<and> gets_sent w4 = gets_sent world_T1 @ [token_request app_config]
   \<and> cache w4 = (cache world_T1)(cache_key ''app1'' \<mapsto> (PStr ''T2'', clock world_T2 + 3600))\<close>
proof -
  let ?E = "kra_env token_T1_then_T2 unauthorized_then_ok"
  have h1: "(0::int) < 5" by simp
  have h2: "fetch_kra_token ?E ''app1'' False empty_world = (Inr (PStr ''T1''), world_T1)"
    by (simp add: fetch_defs kra_defs token_T1_then_T2_def)
  have h3: "requests_post ?E (length (posts_sent world_T1))
              (bearer_post pin_url pin_payload 60 (PStr ''T1''))
            = (1, PostResponse (reply 401 ''Unauthorized''))"
    by (simp add: kra_env_def unauthorized_then_ok_def world_T1_def)
  have h4: "status_code (reply 401 ''Unauthorized'') = 401" by (simp add: reply_def)
  have h5: "fetch_kra_token ?E ''app1'' True
              (world_T1\<lparr>clock := clock world_T1 + 1,
                 posts_sent := posts_sent world_T1 @ [bearer_post pin_url pin_payload 60 (PStr ''T1'')]\<rparr>)
            = (Inr (PStr ''T2''), world_T2)"
    by (simp add: fetch_defs kra_defs token_T1_then_T2_def)
  have h6: \<open>requests_post ?E (length (posts_sent world_T2))
              (bearer_post pin_url pin_payload 60 (PStr ''T2''))
            = (1, PostResponse (reply 200 ''{"ok":true}''))\<close>
    by (simp add: kra_env_def unauthorized_then_ok_def world_T2_def)
  have h7: \<open>status_code (reply 200 ''{"ok":true}'') = 200\<close> by (simp add: reply_def)
  have h8: \<open>json_loads ?E (resp_text (reply 200 ''{"ok":true}'')) = Inr (PDict [(''ok'', PBool True)])\<close>
    by (simp add: kra_env_def kra_loads_def reply_def)
  show ?thesis by (rule call_kra_endpoint_401_then_200[OF h1 h2 h3 h4 h5 h6 h7 h8])
qed

text \<open>
  C6. With \<open>max_retries = 5\<close>, three 504 answers followed by a 200 answer: the call
  sends exactly four POSTs and returns the decoded body of the 200 response.
\<close>

theorem call_kra_endpoint_504_then_200:
  assumes "fetch_kra_token env app_name False w = (Inr tok, w1)"
      and "\<forall>i<3. \<exists>dt r. requests_post env (length (posts_sent w1) + i)
                       (bearer_post url payload timeout tok) = (dt, PostResponse r)
                     \<and> status_code r = 504"
      and "requests_post env (length (posts_sent w1) + 3) (bearer_post url payload timeout tok)
             = (dt, PostResponse r)"
      and "status_code r = 200"
      and "json_loads env (resp_text r) = Inr body"
  shows "\<exists>w'. call_kra_endpoint env url payload app_name 5 timeout w = Some (Inr body, w')
            \<and> posts_sent w' = posts_sent w @ replicate 4 (bearer_post url payload timeout tok)
            \<and> gets_sent w' = gets_sent w1 \<and> cache w' = cache w1"
proof -
  let ?req = "bearer_post url payload timeout tok"
  have a: "\<forall>i<3. \<exists>dt r. requests_post env (length (posts_sent w1) + i)
                    (kra_request url payload timeout (initial_locals tok)) = (dt, PostResponse r)
                  \<and> status_code r = 504"
    using assms(2) by simp
  have b: "retries (initial_locals tok) + int 3 < 5" by (simp add: initial_locals_def)
  from loop_504s[OF a b, of app_name] obtain l' w2 where
    loop: "kra_loop env url payload app_name 5 timeout (initial_locals tok) w1
             = kra_loop env url payload app_name 5 timeout l' w2" and
    l0: "retries l' = retries (initial_locals tok) + int 3"
        "headers l' = headers (initial_locals tok)" and
    w0: "posts_sent w2 = posts_sent w1
           @ replicate 3 (kra_request url payload timeout (initial_locals tok))"
        "gets_sent w2 = gets_sent w1" "cache w2 = cache w1"
    by blast
  have l': "retries l' = 3" "headers l' = initial_headers tok"
    using l0 by (simp_all add: initial_locals_def)
  have w2: "posts_sent w2 = posts_sent w1 @ replicate 3 ?req" "gets_sent w2 = gets_sent w1"
        "cache w2 = cache w1"
    using w0 by simp_all
  have req: "kra_request url payload timeout l' = ?req"
    by (simp add: kra_request_def bearer_post_def l')
  have lt: "retries l' < 5" by (simp add: l')
  have post: "requests_post env (length (posts_sent w2)) (kra_request url payload timeout l')
                = (dt, PostResponse r)"
    using assms(3) by (simp add: req w2)
  let ?w3 = "w2\<lparr>clock := clock w2 + dt, posts_sent := posts_sent w2 @ [?req]\<rparr>"
  have exit: "kra_loop env url payload app_name 5 timeout l' w2
               = Some (Inr (l'\<lparr>response := Some r\<rparr>), ?w3)"
    using loop_exit[OF lt post, of app_name] assms(4) by (simp add: req)
  have res: "kra_result env (l'\<lparr>response := Some r\<rparr>) = Inr body"
    using assms(4,5) by (simp add: kra_result_def ok_def)
  have call: "call_kra_endpoint env url payload app_name 5 timeout w = Some (Inr body, ?w3)"
    by (simp add: call_kra_endpoint_unfold[OF assms(1)] loop exit res)
  have "replicate 3 ?req @ [?req] = replicate 4 ?req"
    by (simp add: numeral_eq_Suc)
  then have p: "posts_sent ?w3 = posts_sent w @ replicate 4 ?req"
    using fetch_posts_sent[OF assms(1)] by (simp add: w2)
  show ?thesis using call p w2 by (intro exI[of _ ?w3]) simp
qed

theorem call_kra_endpoint_504_then_200_witness:
  \<open>\<exists>w'. call_kra_endpoint (kra_env token_T1 gateway_timeouts_then_ok) pin_url pin_payload ''app1'' 5 60
            empty_world
          = Some (Inr (PDict [(''ok'', PBool True)]), w')
       \<and> posts_sent w' = posts_sent empty_world
            @ replicate 4 (bearer_post pin_url pin_payload 60 (PStr ''T1''))
       \<and> gets_sent w' = gets_sent world_T1 \<and> cache w' = cache world_T1\<close>
proof -
  let ?E = "kra_env token_T1 gateway_timeouts_then_ok"
  have h2: "\<forall>i<3. \<exists>dt r. requests_post ?E (length (posts_sent world_T1) + i)
                       (bearer_post pin_url pin_payload 60 (PStr ''T1'')) = (dt, PostResponse r)
                     \<and> status_code r = 504"
    by (simp add: kra_env_def gateway_timeouts_then_ok_def world_T1_def reply_def)
  have h3: \<open>requests_post ?E (length (posts_sent world_T1) + 3)
              (bearer_post pin_url pin_payload 60 (PStr ''T1''))
             = (1, PostResponse (reply 200 ''{"ok":true}''))\<close>
    by (simp add: kra_env_def gateway_timeouts_then_ok_def world_T1_def)
  have h4: \<open>status_code (reply 200 ''{"ok":true}'') = 200\<close> by (simp add: reply_def)
  have h5: \<open>json_loads ?E (resp_text (reply 200 ''{"ok":true}'')) = Inr (PDict [(''ok'', PBool True)])\<close>
    by (simp add: kra_env_def kra_loads_def reply_def)
  show ?thesis by (rule call_kra_endpoint_504_then_200[OF kra_env_fetch_T1 h2 h3 h4 h5])
qed

text \<open>
  C7. A response whose status is neither 401 nor 504 ends the loop at once, with
  \<open>retries\<close> unchanged and one POST sent. When the response is not ok, the result is the
  exception whose message carries the request id (header \<open>x-request-id\<close>, else
  \<open>unknown\<close>), the status code, the body text and the timestamp (header \<open>date\<close>,
  else \<open>unknown\<close>); so it is for the whole call when this is its first response.
\<close>

theorem call_kra_endpoint_other_status:
  assumes \<open>retries l < max_retries\<close>
      and \<open>requests_post env (length (posts_sent w)) (kra_request url payload timeout l)
             = (dt, PostResponse r)\<close>
      and \<open>status_code r \<noteq> 401\<close> and \<open>status_code r \<noteq> 504\<close>
  shows \<open>kra_loop env url payload app_name max_retries timeout l w
           = Some (Inr (l\<lparr>response := Some r\<rparr>),
                   w\<lparr>clock := clock w + dt,
                     posts_sent := posts_sent w @ [kra_request url payload timeout l]\<rparr>)
       \<and> (\<not> ok r \<longrightarrow>
            kra_result env (l\<lparr>response := Some r\<rparr>)
              = Inl (Exception
                  ([CHR 0x0A] @ ''        {'' @ [CHR 0x0A]
                   @ ''          "errorResponse": {'' @ [CHR 0x0A]
                   @ ''            "requestId": "''
                   @ (case resp_headers r ''x-request-id'' of Some v \<Rightarrow> v | None \<Rightarrow> ''unknown'')
                   @ ''",'' @ [CHR 0x0A]
                   @ ''            "code": "'' @ str_int (status_code r) @ ''",'' @ [CHR 0x0A]
                   @ ''            "message": "'' @ resp_text r @ ''",'' @ [CHR 0x0A]
                   @ ''            "timestamp": "''
                   @ (case resp_headers r ''date'' of Some v \<Rightarrow> v | None \<Rightarrow> ''unknown'')
                   @ ''"'' @ [CHR 0x0A]
                   @ ''          }'' @ [CHR 0x0A] @ ''        }''))
          \<and> (\<forall>w0 tok. fetch_kra_token env app_name False w0 = (Inr tok, w) \<and> l = initial_locals tok
                \<longrightarrow> call_kra_endpoint env url payload app_name max_retries timeout w0
                      = Some (Inl (Exception (error_details r)),
                              w\<lparr>clock := clock w + dt,
                                posts_sent := posts_sent w @ [kra_request url payload timeout l]\<rparr>)))\<close>
proof -
  have loop: "kra_loop env url payload app_name max_retries timeout l w
           = Some (Inr (l\<lparr>response := Some r\<rparr>),
                   w\<lparr>clock := clock w + dt,
                     posts_sent := posts_sent w @ [kra_request url payload timeout l]\<rparr>)"
    by (rule loop_exit[OF assms])
  have res: "kra_result env (l\<lparr>response := Some r\<rparr>) = Inl (Exception (error_details r))"
    if "\<not> ok r"
    using that by (simp add: kra_result_def)
  have call: "call_kra_endpoint env url payload app_name max_retries timeout w0
                      = Some (Inl (Exception (error_details r)),
                              w\<lparr>clock := clock w + dt,
                                posts_sent := posts_sent w @ [kra_request url payload timeout l]\<rparr>)"
    if "\<not> ok r" "fetch_kra_token env app_name False w0 = (Inr tok, w)" "l = initial_locals tok"
    for w0 tok
    using loop res[OF that(1)] that(3)
    by (simp add: call_kra_endpoint_unfold[OF that(2)])
  show ?thesis
    using loop res call by (auto simp: error_details_def split: option.splits)
qed

theorem call_kra_endpoint_other_status_witness:
  \<open>kra_loop (kra_env token_T1 (\<lambda>n. PostResponse forbidden)) pin_url pin_payload ''app1'' 5 60
       (initial_locals (PStr ''T1'')) world_T1
     = Some (Inr ((initial_locals (PStr ''T1''))\<lparr>response := Some forbidden\<rparr>),
             world_T1\<lparr>clock := 2, posts_sent := [bearer_post pin_url pin_payload 60 (PStr ''T1'')]\<rparr>)
   \<and> kra_result (kra_env token_T1 (\<lambda>n. PostResponse forbidden))
        ((initial_locals (PStr ''T1''))\<lparr>response := Some forbidden\<rparr>)
      = Inl (Exception ([CHR 0x0A] @ ''        {'' @ [CHR 0x0A] @ ''          "errorResponse": {'' @ [CHR 0x0A] @ ''            "requestId": "req-42",'' @ [CHR 0x0A] @ ''            "code": "403",'' @ [CHR 0x0A] @ ''            "message": "Forbidden",'' @ [CHR 0x0A] @ ''            "timestamp": "unknown"'' @ [CHR 0x0A] @ ''          }'' @ [CHR 0x0A] @ ''        }''))
   \<and> call_kra_endpoint (kra_env token_T1 (\<lambda>n. PostResponse forbidden)) pin_url pin_payload ''app1'' 5 60
        empty_world
      = Some (Inl (Exception ([CHR 0x0A] @ ''        {'' @ [CHR 0x0A] @ ''          "errorResponse": {'' @ [CHR 0x0A] @ ''            "requestId": "req-42",'' @ [CHR 0x0A] @ ''            "code": "403",'' @ [CHR 0x0A] @ ''            "message": "Forbidden",'' @ [CHR 0x0A] @ ''            "timestamp": "unknown"'' @ [CHR 0x0A] @ ''          }'' @ [CHR 0x0A] @ ''        }'')),
              world_T1\<lparr>clock := 2, posts_sent := [bearer_post pin_url pin_payload 60 (PStr ''T1'')]\<rparr>)\<close>
proof -
  let ?E = "kra_env token_T1 (\<lambda>n. PostResponse forbidden)"
  have h1: "retries (initial_locals (PStr ''T1'')) < 5" by (simp add: initial_locals_def)
  have h2: "requests_post ?E (length (posts_sent world_T1))
              (kra_request pin_url pin_payload 60 (initial_locals (PStr ''T1'')))
            = (1, PostResponse forbidden)"
    by (simp add: kra_env_def)
  have h3: "status_code forbidden \<noteq> 401" by (simp add: forbidden_def)
  have h4: "status_code forbidden \<noteq> 504" by (simp add: forbidden_def)
  have n: "\<not> ok forbidden" by (simp add: ok_def forbidden_def)
  have s: "str_int 403 = ''403''" by code_simp
  have e: \<open>error_details forbidden = [CHR 0x0A] @ ''        {'' @ [CHR 0x0A] @ ''          "errorResponse": {'' @ [CHR 0x0A] @ ''            "requestId": "req-42",'' @ [CHR 0x0A] @ ''            "code": "403",'' @ [CHR 0x0A] @ ''            "message": "Forbidden",'' @ [CHR 0x0A] @ ''            "timestamp": "unknown"'' @ [CHR 0x0A] @ ''          }'' @ [CHR 0x0A] @ ''        }''\<close>
    by (simp add: error_details_def forbidden_def s)
  have f: "fetch_kra_token ?E ''app1'' False empty_world = (Inr (PStr ''T1''), world_T1)"
    by (rule kra_env_fetch_T1)
  from call_kra_endpoint_other_status[OF h1 h2 h3 h4, of "''app1''"] n f e
  show ?thesis
    by (simp add: forbidden_def s world_T1_def)
qed

text \<open>
  C8. With \<open>force_refresh = False\<close> and a cached token that has not expired,
  \<open>fetch_kra_token\<close> returns the cached token and changes nothing: no request is sent.
\<close>

theorem fetch_kra_token_cache_hit:
  assumes "cache w (cache_key app_name) = Some (tok, expires_at)"
      and "clock w < expires_at"
      and "truthy tok"
  shows "fetch_kra_token env app_name False w = (Inr tok, w)"
  using assms by (simp add: fetch_kra_token_def cache_get_def)

theorem fetch_kra_token_cache_hit_witness:
  "fetch_kra_token (kra_env (\<lambda>n. GetRaises ''offline'') always_401) ''app1'' False
       (world_T1\<lparr>clock := 1000\<rparr>)
     = (Inr (PStr ''T1''), world_T1\<lparr>clock := 1000\<rparr>)"
proof -
  have h1: "cache (world_T1\<lparr>clock := 1000\<rparr>) (cache_key ''app1'') = Some (PStr ''T1'', 3601)"
    by (simp add: world_T1_def)
  have h2: "clock (world_T1\<lparr>clock := 1000\<rparr>) < 3601" by simp
  have h3: "truthy (PStr ''T1'')" by simp
  show ?thesis by (rule fetch_kra_token_cache_hit[OF h1 h2 h3])
qed

text \<open>
  C9. For a configured app and any cache, \<open>fetch_kra_token\<close> with
  \<open>force_refresh = True\<close> sends one GET to the token endpoint; when it succeeds, the
  token is the one extracted from that response and the cache entry of the app is replaced
  by it, expiring 3600 seconds after the response arrived.
\<close>

theorem fetch_kra_token_force_refresh:
  assumes "KRA_APPS env app_name = Some app_config"
  shows "gets_sent (snd (fetch_kra_token env app_name True w)) = gets_sent w @ [token_request app_config]
       \<and> (\<forall>tok w'. fetch_kra_token env app_name True w = (Inr tok, w') \<longrightarrow>
             cache w' = (cache w)(cache_key app_name \<mapsto> (tok, clock w' + 3600))
           \<and> (\<exists>dt r. requests_get env (length (gets_sent w)) (token_request app_config)
                        = (dt, GetResponse r)
                    \<and> ok r \<and> extract_token env r = Inr tok \<and> clock w' = clock w + dt))"
proof -
  from fetch_forced[OF assms, of w] obtain dt out where
    rq: "requests_get env (length (gets_sent w)) (token_request app_config) = (dt, out)" and
    f: "fetch_kra_token env app_name True w =
            (let w1 = w\<lparr>clock := clock w + dt, gets_sent := gets_sent w @ [token_request app_config]\<rparr> in
             case out of
               GetRaises msg \<Rightarrow> (Inl (Exception (''Token request failed: '' @ msg)), w1)
             | GetResponse r \<Rightarrow>
                 if \<not> ok r then (Inl (Exception (''Token request failed: '' @ resp_text r)), w1)
                 else (case extract_token env r of
                         Inl msg \<Rightarrow> (Inl (Exception (''Failed to get access token: '' @ msg)), w1)
                       | Inr tok \<Rightarrow> (Inr tok, cache_set (cache_key app_name) tok 3600 w1)))"
    by blast
  show ?thesis
    unfolding f using rq
    by (auto simp: Let_def cache_set_def split: get_outcome.splits sum.splits if_splits)
qed

theorem fetch_kra_token_force_refresh_witness:
  "gets_sent (snd (fetch_kra_token (kra_env token_T2 always_401) ''app1'' True world_T1))
     = gets_sent world_T1 @ [token_request app1_config]
   \<and> fetch_kra_token (kra_env token_T2 always_401) ''app1'' True world_T1
       = (Inr (PStr ''T2''),
          \<lparr>cache = [cache_key ''app1'' \<mapsto> (PStr ''T2'', 3602)], clock = 2,
           gets_sent = [token_request app1_config, token_request app1_config],
           posts_sent = []\<rparr>)
   \<and> cache_get (cache_key ''app1'') world_T1 = PStr ''T1''"
proof -
  have h: "KRA_APPS (kra_env token_T2 always_401) ''app1'' = Some app1_config"
    by (simp add: kra_env_def kra_apps_def)
  have "fetch_kra_token (kra_env token_T2 always_401) ''app1'' True world_T1
       = (Inr (PStr ''T2''),
          \<lparr>cache = [cache_key ''app1'' \<mapsto> (PStr ''T2'', 3602)], clock = 2,
           gets_sent = [token_request app1_config, token_request app1_config],
           posts_sent = []\<rparr>)"
    by (simp add: fetch_defs kra_defs)
  moreover have "cache_get (cache_key ''app1'') world_T1 = PStr ''T1''"
    by (simp add: cache_get_def world_T1_def)
  ultimately show ?thesis
    using fetch_kra_token_force_refresh[OF h, of world_T1] by simp
qed

text \<open>
  C10. Whenever the token view answers 200, the token in its body was extracted from a
  response of the token endpoint fetched by this very call, and the cache entry of the
  selected app has been overwritten with it, whatever the cache held before.
\<close>

theorem GetTokenView_post_fresh_token:
  assumes "GetTokenView_post env request_app w = (rsp, w')"
      and "status rsp = 200"
  shows "\<exists>app app_config tok dt r.
           TokenRequestSerializer request_app = Inr app
         \<and> KRA_APPS env app = Some app_config
         \<and> data rsp = AccessToken tok
         \<and> gets_sent w' = gets_sent w @ [token_request app_config]
         \<and> requests_get env (length (gets_sent w)) (token_request app_config) = (dt, GetResponse r)
         \<and> ok r \<and> extract_token env r = Inr tok
         \<and> cache w' = (cache w)(cache_key app \<mapsto> (tok, clock w' + 3600))"
proof -
  from assms obtain app tok where
    ser: "TokenRequestSerializer request_app = Inr app" and
    f: "fetch_kra_token env app True w = (Inr tok, w')" and
    d: "data rsp = AccessToken tok"
    by (auto simp: GetTokenView_post_def split: sum.splits prod.splits)
  from fetch_forced_success[OF f] obtain app_config dt r where
    "KRA_APPS env app = Some app_config"
    "requests_get env (length (gets_sent w)) (token_request app_config) = (dt, GetResponse r)"
    "ok r" "extract_token env r = Inr tok"
    "w' = cache_set (cache_key app) tok 3600
            (w\<lparr>clock := clock w + dt, gets_sent := gets_sent w @ [token_request app_config]\<rparr>)"
    by blast
  then show ?thesis using ser d
    by (intro exI[of _ app] exI[of _ app_config] exI[of _ tok] exI[of _ dt] exI[of _ r])
       (simp add: cache_set_def)
qed

theorem GetTokenView_post_fresh_token_witness:
  "GetTokenView_post (kra_env token_T2 always_401) (Some (PStr ''app1'')) world_T1
     = (\<lparr>status = 200, data = AccessToken (PStr ''T2'')\<rparr>,
        \<lparr>cache = [cache_key ''app1'' \<mapsto> (PStr ''T2'', 3602)], clock = 2,
         gets_sent = [token_request app1_config, token_request app1_config],
         posts_sent = []\<rparr>)
   \<and> (\<exists>app app_config tok dt r.
           TokenRequestSerializer (Some (PStr ''app1'')) = Inr app
         \<and> KRA_APPS (kra_env token_T2 always_401) app = Some app_config
         \<and> AccessToken (PStr ''T2'') = AccessToken tok
         \<and> [token_request app1_config, token_request app1_config]
             = gets_sent world_T1 @ [token_request app_config]
         \<and> requests_get (kra_env token_T2 always_401) (length (gets_sent world_T1))
              (token_request app_config) = (dt, GetResponse r)
         \<and> ok r \<and> extract_token (kra_env token_T2 always_401) r = Inr tok
         \<and> [cache_key ''app1'' \<mapsto> (PStr ''T2'', 3602)]
             = (cache world_T1)(cache_key app \<mapsto> (tok, 2 + 3600)))"
proof -
  let ?rsp = "\<lparr>status = 200, data = AccessToken (PStr ''T2'')\<rparr>"
  let ?w = "\<lparr>cache = [cache_key ''app1'' \<mapsto> (PStr ''T2'', 3602)], clock = 2,
         gets_sent = [token_request app1_config, token_request app1_config],
         posts_sent = []\<rparr>"
  have h1: "GetTokenView_post (kra_env token_T2 always_401) (Some (PStr ''app1'')) world_T1
     = (?rsp, ?w)"
    by (simp add: GetTokenView_post_def fetch_defs kra_defs)
  have h2: "status ?rsp = 200" by simp
  from GetTokenView_post_fresh_token[OF h1 h2] h1 show ?thesis by simp
qed

end
